theory Spec2Isabelle
  imports Main "HOL-Library.Sublist"
begin

section \<open>Text\<close>

text \<open>
  Python strings are modelled as \<^typ>\<open>string\<close> (lists of bytes; the source is pure ASCII).
  The script's multi-line literals are kept line by line: \<open>unlines\<close> puts a newline after
  every line, which is what \<open>dedent\<close> leaves of a triple-quoted block.
\<close>

abbreviation bsl :: char where "bsl \<equiv> CHR 0x5C"

abbreviation nl :: char where "nl \<equiv> CHR 0x0A"

definition unlines :: "string list \<Rightarrow> string" where
  "unlines ls = concat (map (\<lambda>l. l @ [nl]) ls)"

section \<open>The shell scripts run inside the container\<close>

definition setupscript_lines :: "string list" where
  \<open>setupscript_lines =
  [''#ls -lah /.singularity.d/'',
   ''. /etc/profile'',
   ''#cat /.singularity.d/runscript -A'',
   ''#set -euo pipefail'']\<close>

definition setupscript :: string where
  "setupscript = unlines setupscript_lines"

definition hermeticscript_lines :: "string list" where
  \<open>hermeticscript_lines =
  [''#ls -lah /.singularity.d/'',
   ''. /etc/profile'',
   ''#cat /.singularity.d/runscript -A'',
   ''set -euo pipefail'',
   ''DECAF_PREFIX=/opt/decaf/stage'',
   ''DECAF_HENSON_PREFIX=${DECAF_PREFIX:?}/examples/henson'',
   ''FERMI_PREFIX=${DECAF_PREFIX:?}/examples/fermi_hep'',
   ''cd "$(TMPDIR=/tmp mktemp -d)"'',
   ''tmpdir=$PWD'',
   [],
   ''cp -r "${DECAF_PREFIX:?}" "${tmpdir:?}"'',
   ''cd stage/examples/fermi_hep'',
   ''echo $PWD'',
   [],
   ''mkdir conf'',
   ''mv "${FERMI_PREFIX:?}/mb7tev.txt" conf/'',
   ''cp "${FERMI_PREFIX:?}/hep-fullWorkflow-inputPre.json" ./decaf-henson.json'',
   ''sed -ie \'s!/home/oyildiz/decaf-henson/install!\'"$tmpdir/stage"\'!g\' ./decaf-henson.json'',
   ''#sed -ie \'s!'' @ [bsl] @ ''./!\'"${FERMI_PREFIX:?}/"\'!g\' ./decaf-henson.json'',
   ''#cp "${FERMI_PREFIX:?}/hostfile_workflow.txt" ./hostfile_workflow.txt'',
   ''cp "${DECAF_HENSON_PREFIX:?}/python/decaf-henson_python" ./decaf-henson_python'',
   [],
   ''LD_LIBRARY_PATH=${LD_LIBRARY_PATH:+${LD_LIBRARY_PATH:?}:}${DECAF_PREFIX:?three}/lib'',
   ''export DECAF_PREFIX LD_LIBRARY_PATH'']\<close>

definition hermeticscript :: string where
  "hermeticscript = unlines hermeticscript_lines"

definition runscript_lines :: "string list" where
  \<open>runscript_lines =
  [''mpirun --hostfile hostfile_workflow.txt -np 4 ./decaf-henson_python'']\<close>

definition runscript :: string where
  "runscript = unlines runscript_lines"

definition intscript_lines :: "string list" where
  \<open>intscript_lines =
  [''exec bash'']\<close>

definition intscript :: string where
  "intscript = unlines intscript_lines"

text \<open>\<open>_make_script\<close>: the set-up script, the hermetic script, then the interactive
  shell or the workflow launch.\<close>

definition make_script :: "bool \<Rightarrow> string" where
  "make_script interactive =
     (let script = setupscript;
          script = script @ hermeticscript;
          script = (if interactive then script @ intscript else script @ runscript)
      in script)"
section \<open>Paths\<close>

text \<open>
  \<open>pathlib\<close>'s POSIX paths: the anchor (none, \<open>/\<close>, or the special \<open>//\<close>) and the
  components, with empty and \<open>.\<close> components dropped when a string is parsed.
\<close>

datatype anchor = NoRoot | Root | Root2

datatype path = Path (anchor: anchor) (parts: "string list")

fun split_on :: "char \<Rightarrow> string \<Rightarrow> string list" where
  "split_on c [] = [[]]"
| "split_on c (x # xs) =
     (if x = c then [] # split_on c xs
      else (case split_on c xs of
              [] \<Rightarrow> [[x]]
            | r # rs \<Rightarrow> (x # r) # rs))"

fun join :: "string \<Rightarrow> string list \<Rightarrow> string" where
  "join sep [] = []"
| "join sep [x] = x"
| "join sep (x # y # ys) = x @ sep @ join sep (y # ys)"

definition path_of_string :: "string \<Rightarrow> path" where
  "path_of_string s =
     Path (if take 2 s = ''//'' \<and> take 3 s \<noteq> ''///'' then Root2
           else if take 1 s = ''/'' then Root
           else NoRoot)
          (filter (\<lambda>x. x \<noteq> [] \<and> x \<noteq> ''.'') (split_on CHR ''/'' s))"

definition path_str :: "path \<Rightarrow> string" where
  "path_str p =
     (case anchor p of
        NoRoot \<Rightarrow> (if parts p = [] then ''.'' else join ''/'' (parts p))
      | Root \<Rightarrow> ''/'' @ join ''/'' (parts p)
      | Root2 \<Rightarrow> ''//'' @ join ''/'' (parts p))"

text \<open>\<open>p / s\<close>\<close>

definition path_join :: "path \<Rightarrow> string \<Rightarrow> path" where
  "path_join p s =
     (let q = path_of_string s
      in if anchor q \<noteq> NoRoot then q else Path (anchor p) (parts p @ parts q))"

definition name :: "path \<Rightarrow> string" where
  "name p = (if parts p = [] then [] else last (parts p))"

definition parent :: "path \<Rightarrow> path" where
  "parent p = Path (anchor p) (butlast (parts p))"

text \<open>\<open>str.rfind\<close> of a character: the index of its last occurrence.\<close>

fun rfind :: "char \<Rightarrow> string \<Rightarrow> nat option" where
  "rfind c [] = None"
| "rfind c (x # xs) =
     (case rfind c xs of
        Some i \<Rightarrow> Some (Suc i)
      | None \<Rightarrow> (if x = c then Some 0 else None))"

definition suffix_of :: "path \<Rightarrow> string" where
  "suffix_of p =
     (case rfind CHR ''.'' (name p) of
        None \<Rightarrow> []
      | Some i \<Rightarrow> (if 0 < i \<and> i < length (name p) - 1 then drop i (name p) else []))"

datatype error =
    CalledProcessError int "string list"
  | OSError
  | ValueError
  | TypeError string
  | ArgumentTypeError string
  | UsageError string

text \<open>\<open>relative_to\<close> compares anchors and components; nothing is looked up on disk.\<close>

definition relative_to :: "path \<Rightarrow> path \<Rightarrow> error + path" where
  "relative_to p other =
     (if anchor p = anchor other \<and> prefix (parts other) (parts p)
      then Inr (Path NoRoot (drop (length (parts other)) (parts p)))
      else Inl ValueError)"

section \<open>The environment of one invocation\<close>

text \<open>
  What the script reads from outside: the working directory, which paths exist, and
  what each child process does. A child either cannot be started or exits with a status.
\<close>

datatype proc_result = Exited int | NotStarted

record invocation =
  run_args :: "string list"
  run_cwd :: "path option"
  run_input :: "string option"

record env =
  getcwd :: "string list"
  fs_exists :: "path \<Rightarrow> bool"
  proc :: "invocation \<Rightarrow> proc_result"

definition path_cwd :: "env \<Rightarrow> path" where
  "path_cwd e = Path Root (getcwd e)"

text \<open>
  \<open>resolve(strict=False)\<close> on a file system without symbolic links: the path is made
  absolute and \<open>..\<close> steps are taken, staying at the root when there is nothing to leave.
\<close>

fun normalize :: "string list \<Rightarrow> string list \<Rightarrow> string list" where
  "normalize acc [] = acc"
| "normalize acc (x # xs) =
     (if x = ''..'' then normalize (butlast acc) xs else normalize (acc @ [x]) xs)"

definition resolve :: "env \<Rightarrow> path \<Rightarrow> path" where
  "resolve e p =
     Path Root (normalize [] ((if anchor p = NoRoot then getcwd e else []) @ parts p))"

section \<open>Running child processes\<close>

text \<open>
  A computation yields the child processes it has run, in order, and either an exception
  or a value.
\<close>

type_synonym 'a outcome = "invocation list \<times> (error + 'a)"

definition run :: "env \<Rightarrow> invocation \<Rightarrow> bool \<Rightarrow> unit outcome" where
  "run e child check =
     ([child],
      case proc e child of
        NotStarted \<Rightarrow> Inl OSError
      | Exited rc \<Rightarrow> (if check \<and> rc \<noteq> 0 then Inl (CalledProcessError rc (run_args child)) else Inr ()))"

definition and_then :: "'a outcome \<Rightarrow> ('a \<Rightarrow> 'b outcome) \<Rightarrow> 'b outcome" where
  "and_then m f =
     (case snd m of
        Inl err \<Rightarrow> (fst m, Inl err)
      | Inr v \<Rightarrow> (fst m @ fst (f v), snd (f v)))"

definition skip :: "unit outcome" where
  "skip = ([], Inr ())"

definition raise :: "error \<Rightarrow> 'a outcome" where
  "raise err = ([], Inl err)"

section \<open>The Dockerfile template\<close>

text \<open>
  The values a template variable or a keyword argument can hold, with Python's truth
  value and \<open>str\<close>.
\<close>

datatype pyval = PyNone | PyBool bool | PyStr string | PyPath path

fun truthy :: "pyval \<Rightarrow> bool" where
  "truthy PyNone = False"
| "truthy (PyBool b) = b"
| "truthy (PyStr s) = (s \<noteq> [])"
| "truthy (PyPath p) = True"

fun py_str :: "pyval \<Rightarrow> string" where
  "py_str PyNone = ''None''"
| "py_str (PyBool b) = (if b then ''True'' else ''False'')"
| "py_str (PyStr s) = s"
| "py_str (PyPath p) = path_str p"

text \<open>
  The part of the template language the script uses: literal text, \<open>{{ v }}\<close>,
  \<open>{% if v %}\<close> and \<open>{% if not v %}\<close>. Text outside the tags is copied as it is, the
  newline after a tag included; the one newline that ends the template is not output.
\<close>

datatype node =
    Text string
  | Output string
  | IfTrue string "node list"
  | IfNot string "node list"

type_synonym variables = "(string \<times> pyval) list"

definition lookup :: "variables \<Rightarrow> string \<Rightarrow> pyval" where
  "lookup ctx v = (case map_of ctx v of Some x \<Rightarrow> x | None \<Rightarrow> PyNone)"

fun render_node :: "variables \<Rightarrow> node \<Rightarrow> string" where
  "render_node ctx (Text s) = s"
| "render_node ctx (Output v) = py_str (lookup ctx v)"
| "render_node ctx (IfTrue v body) =
     (if truthy (lookup ctx v) then concat (map (render_node ctx) body) else [])"
| "render_node ctx (IfNot v body) =
     (if \<not> truthy (lookup ctx v) then concat (map (render_node ctx) body) else [])"

definition render :: "node list \<Rightarrow> variables \<Rightarrow> string" where
  "render template ctx = concat (map (render_node ctx) template)"

definition build_dependencies_lines :: "string list" where
  \<open>build_dependencies_lines =
  [[],
   ''# Build stage with Spack pre-installed and ready to be used'',
   ''FROM spack/ubuntu-bionic:latest as builder'',
   [],
   ''# What we want to install and how we want to install it'',
   ''# is specified in a manifest file (spack.yaml)'',
   ''RUN mkdir /opt/spack-environment '' @ [bsl],
   ''&&  (echo "spack:" '' @ [bsl],
   ''&&   echo "  view: /opt/view" '' @ [bsl],
   ''&&   echo "  specs:" '' @ [bsl],
   ''&&   echo "  - boost" '' @ [bsl],
   ''&&   echo "  - cmake" '' @ [bsl],
   ''&&   echo "  - henson +mpi-wrappers +python ^mpich@3.3.2 ^python@3.8.2" '' @ [bsl],
   ''&&   echo "  - py-h5py ^hdf5@1.10.2 ^mpich@3.3.2 ^python@3.8.2" '' @ [bsl],
   ''&&   echo "  - py-scipy@1.3.3 ^python@3.8.2" '' @ [bsl],
   ''&&   echo "  - autoconf" '' @ [bsl],
   ''&&   echo "  - automake" '' @ [bsl],
   ''&&   echo "  - hepmc@2.06.10" '' @ [bsl],
   ''&&   echo "  - diy@master ^mpich@3.3.2" '' @ [bsl],
   ''&&   echo "  config:" '' @ [bsl],
   ''&&   echo "    install_tree: /opt/software" '' @ [bsl],
   ''&&   echo "  concretization: together") > /opt/spack-environment/spack.yaml'',
   [],
   ''# Install the software, remove unecessary deps'',
   ''RUN cd /opt/spack-environment && spack install && spack gc -y'',
   [],
   ''RUN cd /opt/spack-environment && spack add pythia8 && spack install && spack gc -y'',
   [],
   ''## Strip all the binaries'',
   ''#RUN find -L /opt/view/* -type f -exec readlink -f \'{}\' '' @ [bsl] @ ''; | '' @ [bsl],
   ''#    xargs file -i | '' @ [bsl],
   ''#    grep \'charset=binary\' | '' @ [bsl],
   ''#    grep \'x-executable'' @ [bsl] @ ''|x-archive'' @ [bsl] @ ''|x-sharedlib\' | '' @ [bsl],
   ''#    awk -F: \'{print $1}\' | xargs strip -s'',
   [],
   ''# Modifications to the environment that are necessary to run'',
   ''RUN cd /opt/spack-environment && '' @ [bsl],
   ''    spack env activate --sh -d . >> /etc/profile.d/z10_spack_environment.sh'',
   [],
   [],
   ''# Bare OS image to run the installed executables'',
   ''FROM ubuntu:18.04 AS dependencies'',
   [],
   ''RUN apt-get update && '' @ [bsl],
   ''    apt-get install -y '' @ [bsl],
   ''        build-essential '' @ [bsl],
   ''        wget '' @ [bsl],
   ''        gfortran '' @ [bsl],
   ''    && '' @ [bsl],
   ''    rm -rf /var/lib/apt/lists/*'',
   [],
   ''COPY --from=builder /opt/spack-environment /opt/spack-environment'',
   ''COPY --from=builder /opt/software /opt/software'',
   ''COPY --from=builder /opt/view /opt/view'',
   ''COPY --from=builder /etc/profile.d/z10_spack_environment.sh /etc/profile.d/z10_spack_environment.sh'',
   [],
   ''ADD apprentice-latest-nodata.tar.gz /opt'',
   ''RUN . /etc/profile && '' @ [bsl],
   ''    python3.8 -m ensurepip && '' @ [bsl],
   ''    python3.8 -m pip install virtualenv && '' @ [bsl],
   ''    python3.8 -m virtualenv /opt/venv && '' @ [bsl],
   ''    /opt/venv/bin/python -m pip install '' @ [bsl],
   ''        networkx '' @ [bsl],
   ''        cython '' @ [bsl],
   ''        /opt/apprentice-latest '' @ [bsl],
   ''    && '' @ [bsl],
   ''    echo \'. /opt/venv/bin/activate\' > /etc/profile.d/z15_python_environment.sh'',
   [],
   ''RUN . /etc/profile && '' @ [bsl],
   ''    mkdir /opt/rivet && '' @ [bsl],
   ''    cd /opt/rivet && '' @ [bsl],
   ''    wget https://phab.hepforge.org/source/rivetbootstraphg/browse/3.0.2/rivet-bootstrap?view=raw -O rivet-bootstrap && '' @ [bsl],
   ''    chmod +x rivet-bootstrap && '' @ [bsl],
   ''    { RIVET_VERSION=2.7.2 YODA_VERSION=1.7.5 HEPMC_VERSION=2.06.09 FASTJET_VERSION=3.3.2 ./rivet-bootstrap || true; } && '' @ [bsl],
   ''    rm YODA-1.7.5/pyext/yoda/util.cpp && '' @ [bsl],
   ''    RIVET_VERSION=2.7.2 YODA_VERSION=1.7.5 HEPMC_VERSION=2.06.09 FASTJET_VERSION=3.3.2 ./rivet-bootstrap && '' @ [bsl],
   ''    echo \'. /opt/rivet/local/rivetenv.sh\' > /etc/profile.d/z20_rivet_environment.sh'',
   []]\<close>

definition overlay_lines :: "string list" where
  \<open>overlay_lines =
  [''WORKDIR /opt/decaf'',
   ''COPY go.sh docker.env.sh /opt/decaf/'',
   ''RUN sed -ie \'/extern "C" void '' @ [bsl] @ ''*('' @ [bsl] @ ''*dlsym(void '' @ [bsl] @ ''*handle, const char '' @ [bsl] @ ''*symbol))();/d\' /opt/view/include/Pythia8/PythiaStdlib.h && '' @ [bsl],
   ''    rm -rf /opt/view/include/diy/thirdparty/fmt && '' @ [bsl],
   ''    cp -r include/fmt /opt/view/include/diy/thirdparty/fmt'',
   []]\<close>

definition compile_lines :: "string list" where
  \<open>compile_lines =
  [''RUN . /etc/profile && '' @ [bsl],
   ''    . /opt/venv/bin/activate && '' @ [bsl],
   ''    ENV=docker ./go.sh cmake && '' @ [bsl],
   ''    ENV=docker ./go.sh make'']\<close>

definition dockerfile_template :: "node list" where
  \<open>dockerfile_template =
  [IfNot ''pull_dependencies''
     [Text (unlines build_dependencies_lines)],
   Text (unlines [[], []]),
   IfTrue ''pull_dependencies''
     [Text (unlines [[]] @ ''FROM ''),
      Output ''pull_dependencies'',
      Text (unlines ['' AS dependencies''])],
   Text (unlines [[], [], [], ''FROM dependencies AS final'', []]),
   IfNot ''only_dependencies''
     [Text (unlines [[], [],
                     ''SHELL ["/bin/bash", "--rcfile", "/etc/profile", "-l", "-c"]'',
                     ''WORKDIR /opt''] @ ''COPY ''),
      Output ''decaf_root'',
      Text (unlines ('' /opt/decaf'' # overlay_lines @ compile_lines @ [[]]))],
   Text (unlines [[], [], ''ENTRYPOINT ["/bin/bash", "--rcfile", "/etc/profile"]'']
         @ ''CMD ["-l"]'')]\<close>

definition opt_str :: "string option \<Rightarrow> pyval" where
  "opt_str x = (case x of None \<Rightarrow> PyNone | Some s \<Rightarrow> PyStr s)"

section \<open>The four commands\<close>

definition git_clone :: "string \<Rightarrow> path \<Rightarrow> invocation" where
  "git_clone decaf_repo decaf_root =
     \<lparr>run_args = [''git'', ''clone'', decaf_repo, path_str decaf_root],
      run_cwd = None, run_input = None\<rparr>"

definition git_checkout :: "string \<Rightarrow> path \<Rightarrow> invocation" where
  "git_checkout decaf_repo_branch decaf_root =
     \<lparr>run_args = [''git'', ''checkout'', decaf_repo_branch],
      run_cwd = Some decaf_root, run_input = None\<rparr>"

definition docker_build :: "string \<Rightarrow> string \<Rightarrow> string \<Rightarrow> invocation" where
  "docker_build tag target dockerfile =
     \<lparr>run_args = [''docker'', ''build'', ''-t'', tag, ''-f'', ''-'', ''--target'', target, ''.''],
      run_cwd = None, run_input = Some dockerfile\<rparr>"

definition docker_push :: "string \<Rightarrow> invocation" where
  "docker_push tag =
     \<lparr>run_args = [''docker'', ''push'', tag], run_cwd = None, run_input = None\<rparr>"

definition main_build_docker_image ::
  "env \<Rightarrow> path \<Rightarrow> string \<Rightarrow> string \<Rightarrow> string \<Rightarrow> bool \<Rightarrow> string option \<Rightarrow> unit outcome" where
  "main_build_docker_image e decaf_root decaf_repo decaf_repo_branch tag only_dependencies
       pull_dependencies =
     and_then (if \<not> fs_exists e decaf_root
           then and_then (run e (git_clone decaf_repo decaf_root) True)
                  (\<lambda>_. run e (git_checkout decaf_repo_branch decaf_root) False)
           else skip)
       (\<lambda>_. case relative_to decaf_root (path_cwd e) of
               Inl err \<Rightarrow> raise err
             | Inr rel \<Rightarrow>
                 (let dockerfile =
                        render dockerfile_template
                          [(''decaf_root'', PyPath rel),
                           (''only_dependencies'', PyBool only_dependencies),
                           (''pull_dependencies'', opt_str pull_dependencies)];
                      target = (if only_dependencies then ''dependencies'' else ''final'')
                  in and_then (run e (docker_build tag target dockerfile) True)
                       (\<lambda>_. if CHR ''/'' \<in> set tag
                             then run e (docker_push tag) True
                             else skip)))"

definition docker_run :: "string \<Rightarrow> string \<Rightarrow> invocation" where
  "docker_run tag script =
     \<lparr>run_args = [''docker'', ''run'', ''-it'', ''--rm'', tag, ''--rcfile'', ''/etc/profile'',
                  ''-c'', script, ''decaf-fermi-wrapper''],
      run_cwd = None, run_input = None\<rparr>"

definition main_run_docker_image :: "env \<Rightarrow> string \<Rightarrow> bool \<Rightarrow> unit outcome" where
  "main_run_docker_image e tag interactive =
     (let script = make_script interactive
      in run e (docker_run tag script) True)"

definition singularity_build :: "path \<Rightarrow> string \<Rightarrow> invocation" where
  "singularity_build sif tag =
     \<lparr>run_args = [''singularity'', ''build'', path_str sif, tag],
      run_cwd = None, run_input = None\<rparr>"

definition main_build_singularity_image :: "env \<Rightarrow> string \<Rightarrow> path \<Rightarrow> unit outcome" where
  "main_build_singularity_image e tag sif =
     (let tag = (if CHR ''/'' \<in> set tag then ''docker://'' @ tag else ''docker-daemon://'' @ tag)
      in run e (singularity_build sif tag) True)"

definition singularity_exec :: "string \<Rightarrow> invocation" where
  "singularity_exec script =
     \<lparr>run_args = [''singularity'', ''exec'', ''./decaf-fermi.sif'', ''bash'', ''--rcfile'',
                  ''/etc/profile'', ''-c'', script, ''decaf-fermi-wrapper''],
      run_cwd = None, run_input = None\<rparr>"

definition main_run_singularity_image :: "env \<Rightarrow> bool \<Rightarrow> unit outcome" where
  "main_run_singularity_image e interactive =
     (let script = make_script interactive
      in run e (singularity_exec script) True)"

section \<open>The command line\<close>

text \<open>
  The two argument types. An exception inside either becomes an \<open>ArgumentTypeError\<close>
  carrying the assertion's message.
\<close>

definition tag :: "string \<Rightarrow> error + string" where
  \<open>tag s =
     (if \<not> length (filter (\<lambda>c. c = CHR ''/'') s) \<le> 1
      then Inl (ArgumentTypeError
                  ''Expected 0 or 1 "/" separator in tag (user/imagename or imagename)'')
      else if CHR '':'' \<notin> set s
      then Inl (ArgumentTypeError ''Expected ":" separator in tag (version, e.g. "latest")'')
      else Inr s)\<close>

definition sif :: "env \<Rightarrow> string \<Rightarrow> error + path" where
  "sif e s =
     (let path = path_of_string s;
          path = resolve e path
      in if suffix_of path \<noteq> ''.sif''
         then Inl (ArgumentTypeError ''Expected sif extension'')
         else if \<not> fs_exists e (parent path)
         then Inl (ArgumentTypeError
                     (''Expected parent directory to exist: '' @ path_str (parent path)))
         else Inr path)"

text \<open>
  The command line after the program name: a subcommand, if any, and the options that
  follow it in the order given.
\<close>

datatype command =
    build_docker_image
  | run_docker_image
  | build_singularity_image
  | run_singularity_image

datatype arg =
    ArgDecafRoot string
  | ArgDecafRepo string
  | ArgDecafRepoBranch string
  | ArgTag string
  | ArgOnlyDependencies
  | ArgPullDependencies string
  | ArgInteractive
  | ArgSif string

type_synonym namespace = "(string \<times> pyval) list"

fun setattr :: "namespace \<Rightarrow> string \<Rightarrow> pyval \<Rightarrow> namespace" where
  "setattr [] k v = [(k, v)]"
| "setattr ((k', v') # ns) k v = (if k' = k then (k, v) # ns else (k', v') # setattr ns k v)"

text \<open>
  The defaults of each subparser. The default image file has already been through \<open>sif\<close>
  when the parser is built; the default tag is a string and passes \<open>tag\<close>.
\<close>

definition defaults :: "env \<Rightarrow> path \<Rightarrow> command \<Rightarrow> namespace" where
  "defaults e default_sif c =
     (case c of
        build_docker_image \<Rightarrow>
          [(''decaf_root'', PyPath (path_join (path_cwd e) ''decaf'')),
           (''decaf_repo'', PyStr ''git@bitbucket.org:tpeterka1/decaf.git''),
           (''decaf_repo_branch'', PyStr ''decaf-henson''),
           (''tag'', PyStr ''decaf-fermi:latest''),
           (''only_dependencies'', PyBool False),
           (''pull_dependencies'', PyNone)]
      | run_docker_image \<Rightarrow>
          [(''tag'', PyStr ''decaf-fermi:latest''),
           (''interactive'', PyBool False)]
      | build_singularity_image \<Rightarrow>
          [(''tag'', PyStr ''decaf-fermi:latest''),
           (''sif'', PyPath default_sif)]
      | run_singularity_image \<Rightarrow>
          [(''sif'', PyPath default_sif),
           (''interactive'', PyBool False)])"

text \<open>
  One option of a subparser: the attribute it sets and the converted value, a usage
  error when the type function refuses the value, or \<open>None\<close> for an option the
  subparser does not have.
\<close>

definition type_error :: "string \<Rightarrow> error + 'a \<Rightarrow> error + 'a" where
  "type_error opt r =
     (case r of
        Inl (ArgumentTypeError msg) \<Rightarrow> Inl (UsageError (''argument '' @ opt @ '': '' @ msg))
      | _ \<Rightarrow> r)"

fun convert :: "env \<Rightarrow> command \<Rightarrow> arg \<Rightarrow> (error + string \<times> pyval) option" where
  "convert e build_docker_image (ArgDecafRoot s) =
     Some (Inr (''decaf_root'', PyPath (path_of_string s)))"
| "convert e build_docker_image (ArgDecafRepo s) = Some (Inr (''decaf_repo'', PyStr s))"
| "convert e build_docker_image (ArgDecafRepoBranch s) =
     Some (Inr (''decaf_repo_branch'', PyStr s))"
| "convert e build_docker_image (ArgTag s) =
     Some (map_sum id (\<lambda>t. (''tag'', PyStr t)) (type_error ''--tag'' (tag s)))"
| "convert e build_docker_image ArgOnlyDependencies =
     Some (Inr (''only_dependencies'', PyBool True))"
| "convert e build_docker_image (ArgPullDependencies s) =
     Some (map_sum id (\<lambda>t. (''pull_dependencies'', PyStr t))
             (type_error ''--pull-dependencies'' (tag s)))"
| "convert e run_docker_image (ArgTag s) =
     Some (map_sum id (\<lambda>t. (''tag'', PyStr t)) (type_error ''--tag'' (tag s)))"
| "convert e run_docker_image ArgInteractive = Some (Inr (''interactive'', PyBool True))"
| "convert e build_singularity_image (ArgTag s) =
     Some (map_sum id (\<lambda>t. (''tag'', PyStr t)) (type_error ''--tag/-t'' (tag s)))"
| "convert e build_singularity_image (ArgSif s) =
     Some (map_sum id (\<lambda>p. (''sif'', PyPath p)) (type_error ''--sif/-s'' (sif e s)))"
| "convert e run_singularity_image (ArgSif s) =
     Some (map_sum id (\<lambda>p. (''sif'', PyPath p)) (type_error ''--sif'' (sif e s)))"
| "convert e run_singularity_image ArgInteractive =
     Some (Inr (''interactive'', PyBool True))"
| "convert e _ _ = None"

text \<open>
  Options are converted in the order given, and the first refusal ends the run;
  options the subparser does not know are reported once the rest has been parsed.
\<close>

fun parse_args :: "env \<Rightarrow> command \<Rightarrow> namespace \<Rightarrow> bool \<Rightarrow> arg list \<Rightarrow> error + namespace" where
  "parse_args e c ns extras [] =
     (if extras then Inl (UsageError ''unrecognized arguments'') else Inr ns)"
| "parse_args e c ns extras (a # as) =
     (case convert e c a of
        None \<Rightarrow> parse_args e c ns True as
      | Some (Inl err) \<Rightarrow> Inl err
      | Some (Inr (k, v)) \<Rightarrow> parse_args e c (setattr ns k v) extras as)"

text \<open>
  \<open>main(**args)\<close>: the keywords must be exactly the parameters of the function called.
\<close>

definition parameters :: "command \<Rightarrow> string list" where
  "parameters c =
     (case c of
        build_docker_image \<Rightarrow>
          [''decaf_root'', ''decaf_repo'', ''decaf_repo_branch'', ''tag'',
           ''only_dependencies'', ''pull_dependencies'']
      | run_docker_image \<Rightarrow> [''tag'', ''interactive'']
      | build_singularity_image \<Rightarrow> [''tag'', ''sif'']
      | run_singularity_image \<Rightarrow> [''interactive''])"

definition main_name :: "command \<Rightarrow> string" where
  "main_name c =
     (case c of
        build_docker_image \<Rightarrow> ''main_build_docker_image''
      | run_docker_image \<Rightarrow> ''main_run_docker_image''
      | build_singularity_image \<Rightarrow> ''main_build_singularity_image''
      | run_singularity_image \<Rightarrow> ''main_run_singularity_image'')"

text \<open>
  The body of each function at values of the types the parser produces. The parser never
  stores a value of another type, so the last case of each is not reached from \<open>cli\<close>.
\<close>

definition apply_main :: "env \<Rightarrow> command \<Rightarrow> namespace \<Rightarrow> unit outcome" where
  "apply_main e c args =
     (case c of
        build_docker_image \<Rightarrow>
          (case (map_of args ''decaf_root'', map_of args ''decaf_repo'',
                 map_of args ''decaf_repo_branch'', map_of args ''tag'',
                 map_of args ''only_dependencies'', map_of args ''pull_dependencies'') of
             (Some (PyPath root), Some (PyStr repo), Some (PyStr branch), Some (PyStr t),
              Some (PyBool only), Some PyNone) \<Rightarrow>
               main_build_docker_image e root repo branch t only None
           | (Some (PyPath root), Some (PyStr repo), Some (PyStr branch), Some (PyStr t),
              Some (PyBool only), Some (PyStr pull)) \<Rightarrow>
               main_build_docker_image e root repo branch t only (Some pull)
           | _ \<Rightarrow> raise (TypeError ''argument of another type''))
      | run_docker_image \<Rightarrow>
          (case (map_of args ''tag'', map_of args ''interactive'') of
             (Some (PyStr t), Some (PyBool i)) \<Rightarrow> main_run_docker_image e t i
           | _ \<Rightarrow> raise (TypeError ''argument of another type''))
      | build_singularity_image \<Rightarrow>
          (case (map_of args ''tag'', map_of args ''sif'') of
             (Some (PyStr t), Some (PyPath p)) \<Rightarrow> main_build_singularity_image e t p
           | _ \<Rightarrow> raise (TypeError ''argument of another type''))
      | run_singularity_image \<Rightarrow>
          (case map_of args ''interactive'' of
             Some (PyBool i) \<Rightarrow> main_run_singularity_image e i
           | _ \<Rightarrow> raise (TypeError ''argument of another type'')))"

definition call_main :: "env \<Rightarrow> command \<Rightarrow> namespace \<Rightarrow> unit outcome" where
  \<open>call_main e c args =
     (case filter (\<lambda>k. k \<notin> set (parameters c)) (map fst args) of
        k # _ \<Rightarrow>
          raise (TypeError (main_name c @ ''() got an unexpected keyword argument '' @ [CHR 0x27] @ k
                            @ [CHR 0x27]))
      | [] \<Rightarrow>
          (case filter (\<lambda>k. k \<notin> set (map fst args)) (parameters c) of
             k # _ \<Rightarrow>
               raise (TypeError (main_name c @ ''() missing required positional argument''))
           | [] \<Rightarrow> apply_main e c args))\<close>

text \<open>
  \<open>cli\<close>: building the parser evaluates the default image file; with no subcommand the
  usage is printed and nothing else happens.
\<close>

definition cli :: "env \<Rightarrow> command option \<Rightarrow> arg list \<Rightarrow> unit outcome" where
  "cli e cmd argv =
     (case sif e ''./decaf-fermi.sif'' of
        Inl err \<Rightarrow> raise err
      | Inr default_sif \<Rightarrow>
          (case cmd of
             None \<Rightarrow>
               (if argv = [] then skip else raise (UsageError ''unrecognized arguments''))
           | Some c \<Rightarrow>
               (case parse_args e c (defaults e default_sif c) False argv of
                  Inl err \<Rightarrow> raise err
                | Inr args \<Rightarrow> call_main e c args)))"

section \<open>Notions used in the statements\<close>

text \<open>
  The validation rule for image tags in the specification's words: at most one registry
  separator and a version separator.
\<close>

definition well_formed_tag :: "string \<Rightarrow> bool" where
  "well_formed_tag s \<longleftrightarrow> length (filter (\<lambda>c. c = CHR ''/'') s) \<le> 1 \<and> CHR '':'' \<in> set s"

text \<open>
  Sample environments in the working directory \<open>/home/user\<close>: the source tree
  \<open>/home/user/decaf\<close> is present or not, and a child process exits with the status given
  for its subcommand (the second word of its command line).
\<close>

definition sample_env :: "bool \<Rightarrow> (string \<Rightarrow> int) \<Rightarrow> env" where
  "sample_env present status =
     \<lparr>getcwd = [''home'', ''user''],
      fs_exists = (\<lambda>p. p = Path Root [] \<or> p = Path Root [''home'']
                       \<or> p = Path Root [''home'', ''user'']
                       \<or> (present \<and> p = Path Root [''home'', ''user'', ''decaf''])),
      proc = (\<lambda>child. case run_args child of
                         prog # word # rest \<Rightarrow> Exited (status word)
                       | _ \<Rightarrow> Exited 0)\<rparr>"

definition all_succeed :: "string \<Rightarrow> int" where
  "all_succeed word = 0"

definition build_fails :: "string \<Rightarrow> int" where
  "build_fails word = (if word = ''build'' then 1 else 0)"


definition checkout_fails :: "string \<Rightarrow> int" where
  "checkout_fails word = (if word = ''checkout'' then 1 else 0)"

definition example_env :: env where
  "example_env = sample_env True all_succeed"

text \<open>The Dockerfile that \<open>main_build_docker_image\<close> renders, and the child that builds.\<close>

abbreviation dockerfile :: "path \<Rightarrow> bool \<Rightarrow> string option \<Rightarrow> string" where
  "dockerfile rel only_dependencies pull_dependencies \<equiv>
     render dockerfile_template
       [(''decaf_root'', PyPath rel),
        (''only_dependencies'', PyBool only_dependencies),
        (''pull_dependencies'', opt_str pull_dependencies)]"

abbreviation target_of :: "bool \<Rightarrow> string" where
  "target_of only_dependencies \<equiv> (if only_dependencies then ''dependencies'' else ''final'')"

definition is_docker_build :: "invocation \<Rightarrow> bool" where
  "is_docker_build child \<longleftrightarrow> take 2 (run_args child) = [''docker'', ''build'']"

text \<open>
  How far \<open>build-docker-image\<close> gets before it renders the Dockerfile: the source tree
  is there, or the clone succeeds and the checkout can be started. \<open>fetched\<close> are the
  children run up to that point.
\<close>

definition reaches_render :: "env \<Rightarrow> path \<Rightarrow> string \<Rightarrow> string \<Rightarrow> bool" where
  "reaches_render e root repo branch \<longleftrightarrow>
     fs_exists e root
     \<or> (proc e (git_clone repo root) = Exited 0 \<and> proc e (git_checkout branch root) \<noteq> NotStarted)"

definition fetched :: "env \<Rightarrow> path \<Rightarrow> string \<Rightarrow> string \<Rightarrow> invocation list" where
  "fetched e root repo branch =
     (if fs_exists e root then [] else [git_clone repo root, git_checkout branch root])"

text \<open>
  The pieces of text of the Dockerfile template, named: what precedes and follows the
  pull-dependencies tag, the line that opens the final stage, what precedes and follows
  the source-tree path, and the closing entry point.
\<close>

definition build_dependencies :: string where
  "build_dependencies = unlines build_dependencies_lines"

definition pull_head :: string where
  "pull_head = unlines [[], []] @ unlines [[]] @ ''FROM ''"

definition pull_tail :: string where
  "pull_tail = unlines ['' AS dependencies'']"

definition final_from :: string where
  "final_from = unlines [[], [], [], ''FROM dependencies AS final'', []]"

definition copy_head :: string where
  \<open>copy_head =
     unlines [[], [],
              ''SHELL ["/bin/bash", "--rcfile", "/etc/profile", "-l", "-c"]'',
              ''WORKDIR /opt''] @ ''COPY ''\<close>

definition copy_tail :: string where
  "copy_tail = unlines ('' /opt/decaf'' # overlay_lines @ compile_lines @ [[]])"

definition entrypoint :: string where
  \<open>entrypoint =
     unlines [[], [], ''ENTRYPOINT ["/bin/bash", "--rcfile", "/etc/profile"]'']
     @ ''CMD ["-l"]''\<close>

definition compile_instruction :: string where
  "compile_instruction = unlines compile_lines"




section \<open>The generated script\<close>






lemma unlines_append: "unlines (a @ b) = unlines a @ unlines b"
  by (simp add: unlines_def)


section \<open>Validation of the command line\<close>

lemma tag_accepts: "tag s = Inr t \<longleftrightarrow> well_formed_tag s \<and> t = s"
  by (auto simp: tag_def well_formed_tag_def)

lemma tag_rejects: "(\<exists>msg. tag s = Inl (ArgumentTypeError msg)) \<longleftrightarrow> \<not> well_formed_tag s"
  by (auto simp: tag_def well_formed_tag_def)

lemma tag_error_kind: "tag s = Inl err \<Longrightarrow> \<exists>msg. err = ArgumentTypeError msg"
  by (auto simp: tag_def split: if_splits)

lemma sif_error_kind: "sif e s = Inl err \<Longrightarrow> \<exists>msg. err = ArgumentTypeError msg"
  by (auto simp: sif_def Let_def split: if_splits)

lemma type_error_usage:
  "(\<And>err. r = Inl err \<Longrightarrow> \<exists>msg. err = ArgumentTypeError msg) \<Longrightarrow>
   map_sum id f (type_error opt r) = Inl err \<Longrightarrow> \<exists>msg. err = UsageError msg"
  by (cases r) (auto simp: type_error_def)

lemma convert_error_kind:
  "convert e c a = Some (Inl err) \<Longrightarrow> \<exists>msg. err = UsageError msg"
  by (cases "(e, c, a)" rule: convert.cases)
     (auto dest!: type_error_usage[rotated] tag_error_kind sif_error_kind)

lemma parse_args_error_kind:
  "parse_args e c ns extras argv = Inl err \<Longrightarrow> \<exists>msg. err = UsageError msg"
  by (induction argv arbitrary: ns extras)
     (auto split: option.splits sum.splits if_splits dest: convert_error_kind)

lemma parse_args_extras: "\<exists>msg. parse_args e c ns True argv = Inl (UsageError msg)"
  by (induction argv arbitrary: ns)
     (auto split: option.splits sum.splits dest: convert_error_kind)

lemma parse_args_refused:
  assumes "a \<in> set argv" and "convert e c a = None \<or> (\<exists>err. convert e c a = Some (Inl err))"
  shows "\<exists>msg. parse_args e c ns extras argv = Inl (UsageError msg)"
  using assms
proof (induction argv arbitrary: ns extras)
  case Nil
  then show ?case by simp
next
  case (Cons b argv)
  show ?case
  proof (cases "convert e c b")
    case None
    then show ?thesis using parse_args_extras by simp
  next
    case (Some r)
    show ?thesis
    proof (cases r)
      case (Inl err)
      then show ?thesis using Some convert_error_kind by fastforce
    next
      case (Inr kv)
      then have "a \<noteq> b" using Cons.prems(2) Some by auto
      then have "a \<in> set argv" using Cons.prems(1) by simp
      then show ?thesis using Cons.IH Cons.prems(2) Some Inr by (cases kv) simp
    qed
  qed
qed

lemma convert_bad_tag:
  assumes "\<not> well_formed_tag s"
  shows "convert e c (ArgTag s) = None \<or> (\<exists>err. convert e c (ArgTag s) = Some (Inl err))"
    and "convert e c (ArgPullDependencies s) = None
         \<or> (\<exists>err. convert e c (ArgPullDependencies s) = Some (Inl err))"
proof -
  obtain msg where "tag s = Inl (ArgumentTypeError msg)" using assms tag_rejects by blast
  then show "convert e c (ArgTag s) = None \<or> (\<exists>err. convert e c (ArgTag s) = Some (Inl err))"
    and "convert e c (ArgPullDependencies s) = None
         \<or> (\<exists>err. convert e c (ArgPullDependencies s) = Some (Inl err))"
    by (cases c; simp add: type_error_def)+
qed

lemma cli_unparsed:
  assumes "sif e ''./decaf-fermi.sif'' = Inr d"
    and "parse_args e c (defaults e d c) False argv = Inl err"
  shows "cli e (Some c) argv = ([], Inl err)"
  using assms by (simp add: cli_def raise_def)

lemma cli_no_default:
  assumes "sif e ''./decaf-fermi.sif'' = Inl err"
  shows "cli e cmd argv = ([], Inl err)"
  using assms by (simp add: cli_def raise_def)

text \<open>
  C7: \<open>tag\<close> accepts a string exactly when it has at most one \<open>/\<close> and at least one
  \<open>:\<close>, and refuses it with the assertion's message otherwise; \<open>user/image:latest\<close>
  passes, \<open>a/b/c:latest\<close> and \<open>image\<close> fail. A command line that carries a refused tag
  (as \<open>--tag\<close> or \<open>--pull-dependencies\<close>) fails without running any child process,
  and the failure is the parser's usage error whenever the parser could be built.
\<close>

theorem tag_validation:
  "(tag s = Inr s \<longleftrightarrow> well_formed_tag s)
   \<and> ((\<exists>msg. tag s = Inl (ArgumentTypeError msg)) \<longleftrightarrow> \<not> well_formed_tag s)
   \<and> tag ''user/image:latest'' = Inr ''user/image:latest''
   \<and> (\<exists>msg. tag ''a/b/c:latest'' = Inl (ArgumentTypeError msg))
   \<and> (\<exists>msg. tag ''image'' = Inl (ArgumentTypeError msg))
   \<and> (\<not> well_formed_tag s \<and> (ArgTag s \<in> set argv \<or> ArgPullDependencies s \<in> set argv)
        \<longrightarrow> fst (cli e cmd argv) = [] \<and> isl (snd (cli e cmd argv)))
   \<and> (\<not> well_formed_tag s \<and> (ArgTag s \<in> set argv \<or> ArgPullDependencies s \<in> set argv)
        \<and> sif e ''./decaf-fermi.sif'' = Inr d
        \<longrightarrow> (\<exists>msg. cli e cmd argv = ([], Inl (UsageError msg))))"
proof -
  have ex: "tag ''user/image:latest'' = Inr ''user/image:latest''"
    "\<exists>msg. tag ''a/b/c:latest'' = Inl (ArgumentTypeError msg)"
    "\<exists>msg. tag ''image'' = Inl (ArgumentTypeError msg)"
    by (simp_all add: tag_def)
  have usage: "\<exists>msg. cli e cmd argv = ([], Inl (UsageError msg))"
    if bad: "\<not> well_formed_tag s"
      and mem: "ArgTag s \<in> set argv \<or> ArgPullDependencies s \<in> set argv"
      and dflt: "sif e ''./decaf-fermi.sif'' = Inr d" for d
  proof (cases cmd)
    case None
    have "argv \<noteq> []" using mem by auto
    then show ?thesis using None dflt by (simp add: cli_def raise_def)
  next
    case (Some c)
    from mem obtain a where a: "a \<in> set argv"
      "convert e c a = None \<or> (\<exists>err. convert e c a = Some (Inl err))"
      using convert_bad_tag[OF bad] by blast
    obtain msg where "parse_args e c (defaults e d c) False argv = Inl (UsageError msg)"
      using parse_args_refused[OF a] by blast
    then show ?thesis using cli_unparsed[OF dflt] Some by simp
  qed
  have fails: "fst (cli e cmd argv) = [] \<and> isl (snd (cli e cmd argv))"
    if bad: "\<not> well_formed_tag s"
      and mem: "ArgTag s \<in> set argv \<or> ArgPullDependencies s \<in> set argv"
  proof (cases "sif e ''./decaf-fermi.sif''")
    case (Inl err)
    then show ?thesis using cli_no_default[OF Inl] by simp
  next
    case (Inr d')
    then show ?thesis using usage[OF bad mem Inr] by auto
  qed
  show ?thesis using tag_accepts tag_rejects ex usage fails by blast
qed

lemma example_env_default_sif:
  "sif example_env ''./decaf-fermi.sif'' = Inr (Path Root [''home'', ''user'', ''decaf-fermi.sif''])"
  by (simp add: sif_def example_env_def sample_env_def path_of_string_def resolve_def suffix_of_def name_def
      parent_def Let_def)

theorem tag_validation_witness:
  "\<not> well_formed_tag ''a/b/c:latest''
   \<and> ArgTag ''a/b/c:latest'' \<in> set [ArgInteractive, ArgTag ''a/b/c:latest'']
   \<and> sif example_env ''./decaf-fermi.sif''
       = Inr (Path Root [''home'', ''user'', ''decaf-fermi.sif''])
   \<and> (\<exists>msg. cli example_env (Some run_docker_image) [ArgInteractive, ArgTag ''a/b/c:latest'']
              = ([], Inl (UsageError msg)))"
proof -
  have bad: "\<not> well_formed_tag ''a/b/c:latest''"
    by (simp add: well_formed_tag_def)
  have mem: "ArgTag ''a/b/c:latest'' \<in> set [ArgInteractive, ArgTag ''a/b/c:latest'']"
    by simp
  show ?thesis
    using tag_validation[where s = "''a/b/c:latest''"
        and argv = "[ArgInteractive, ArgTag ''a/b/c:latest'']" and e = example_env
        and cmd = "Some run_docker_image"
        and d = "Path Root [''home'', ''user'', ''decaf-fermi.sif'']"]
      bad mem example_env_default_sif
    by blast
qed


lemma rfind_append:
  "rfind c (xs @ ys) = (case rfind c ys of Some i \<Rightarrow> Some (length xs + i) | None \<Rightarrow> rfind c xs)"
  by (induction xs) (auto split: option.splits)

lemma rfind_Some:
  "rfind c xs = Some i \<Longrightarrow> i < length xs \<and> xs ! i = c"
  by (induction xs arbitrary: i) (auto split: option.splits if_splits)

lemma suffix_of_sif:
  "suffix_of p = ''.sif'' \<longleftrightarrow> (\<exists>stem. stem \<noteq> [] \<and> name p = stem @ ''.sif'')"
proof
  assume "suffix_of p = ''.sif''"
  then obtain i where i: "rfind CHR ''.'' (name p) = Some i" "0 < i" "i < length (name p) - 1"
    "drop i (name p) = ''.sif''"
    by (auto simp: suffix_of_def split: option.splits if_splits)
  have "name p = take i (name p) @ ''.sif''" using i(4) by (metis append_take_drop_id)
  moreover have "take i (name p) \<noteq> []" using i(2,3) by auto
  ultimately show "\<exists>stem. stem \<noteq> [] \<and> name p = stem @ ''.sif''" by blast
next
  assume "\<exists>stem. stem \<noteq> [] \<and> name p = stem @ ''.sif''"
  then obtain stem where s: "stem \<noteq> []" "name p = stem @ ''.sif''" by blast
  have "rfind CHR ''.'' (name p) = Some (length stem)"
    unfolding s(2) rfind_append by simp
  then show "suffix_of p = ''.sif''" using s by (simp add: suffix_of_def)
qed

text \<open>
  C8: \<open>sif\<close> accepts a string exactly when the resolved path has the suffix \<open>.sif\<close> (its
  last component is a non-empty stem followed by \<open>.sif\<close>) and the parent directory of the
  resolved path exists, and then returns the resolved path; otherwise it refuses with the
  assertion's message. In \<open>/home/user\<close>, \<open>./out.sif\<close> passes, \<open>./out.img\<close> fails on the
  suffix and \<open>./missing_dir/out.sif\<close> on the missing parent. A refused \<open>--sif\<close> on the
  command line ends in the parser's usage error with no child process run.
\<close>

theorem sif_validation:
  "(sif e s = Inr p \<longleftrightarrow>
      p = resolve e (path_of_string s) \<and> suffix_of p = ''.sif'' \<and> fs_exists e (parent p))
   \<and> ((\<exists>msg. sif e s = Inl (ArgumentTypeError msg)) \<longleftrightarrow>
      \<not> (suffix_of (resolve e (path_of_string s)) = ''.sif''
         \<and> fs_exists e (parent (resolve e (path_of_string s)))))
   \<and> (suffix_of p = ''.sif'' \<longleftrightarrow> (\<exists>stem. stem \<noteq> [] \<and> name p = stem @ ''.sif''))
   \<and> sif example_env ''./out.sif'' = Inr (Path Root [''home'', ''user'', ''out.sif''])
   \<and> sif example_env ''./out.img'' = Inl (ArgumentTypeError ''Expected sif extension'')
   \<and> sif example_env ''./missing_dir/out.sif''
       = Inl (ArgumentTypeError ''Expected parent directory to exist: /home/user/missing_dir'')
   \<and> (ArgSif s \<in> set argv \<and> sif e s = Inl err \<and> sif e ''./decaf-fermi.sif'' = Inr d
        \<longrightarrow> (\<exists>msg. cli e cmd argv = ([], Inl (UsageError msg))))"
proof -
  have acc: "sif e s = Inr p \<longleftrightarrow>
      p = resolve e (path_of_string s) \<and> suffix_of p = ''.sif'' \<and> fs_exists e (parent p)"
    by (auto simp: sif_def Let_def)
  have rej: "(\<exists>msg. sif e s = Inl (ArgumentTypeError msg)) \<longleftrightarrow>
      \<not> (suffix_of (resolve e (path_of_string s)) = ''.sif''
         \<and> fs_exists e (parent (resolve e (path_of_string s))))"
    by (auto simp: sif_def Let_def)
  have ex1: "sif example_env ''./out.sif'' = Inr (Path Root [''home'', ''user'', ''out.sif''])"
    by (simp add: sif_def example_env_def sample_env_def path_of_string_def resolve_def suffix_of_def name_def
        parent_def Let_def)
  have ex2: "sif example_env ''./out.img'' = Inl (ArgumentTypeError ''Expected sif extension'')"
    by (simp add: sif_def example_env_def sample_env_def path_of_string_def resolve_def suffix_of_def name_def
        parent_def Let_def)
  have ex3: "sif example_env ''./missing_dir/out.sif''
       = Inl (ArgumentTypeError ''Expected parent directory to exist: /home/user/missing_dir'')"
    by (simp add: sif_def example_env_def sample_env_def path_of_string_def resolve_def suffix_of_def name_def
        parent_def path_str_def Let_def)
  have usage: "\<exists>msg. cli e cmd argv = ([], Inl (UsageError msg))"
    if mem: "ArgSif s \<in> set argv" and bad: "sif e s = Inl err"
      and dflt: "sif e ''./decaf-fermi.sif'' = Inr d"
  proof (cases cmd)
    case None
    have "argv \<noteq> []" using mem by auto
    then show ?thesis using None dflt by (simp add: cli_def raise_def)
  next
    case (Some c)
    obtain m where "err = ArgumentTypeError m" using sif_error_kind[OF bad] by blast
    then have "convert e c (ArgSif s) = None \<or> (\<exists>err. convert e c (ArgSif s) = Some (Inl err))"
      using bad by (cases c; simp add: type_error_def)
    then obtain msg where "parse_args e c (defaults e d c) False argv = Inl (UsageError msg)"
      using parse_args_refused[OF mem] by blast
    then show ?thesis using cli_unparsed[OF dflt] Some by simp
  qed
  show ?thesis using acc rej suffix_of_sif ex1 ex2 ex3 usage by blast
qed

theorem sif_validation_witness:
  "ArgSif ''./out.img'' \<in> set [ArgSif ''./out.img'']
   \<and> sif example_env ''./out.img'' = Inl (ArgumentTypeError ''Expected sif extension'')
   \<and> sif example_env ''./decaf-fermi.sif''
       = Inr (Path Root [''home'', ''user'', ''decaf-fermi.sif''])
   \<and> (\<exists>msg. cli example_env (Some build_singularity_image) [ArgSif ''./out.img'']
              = ([], Inl (UsageError msg)))"
proof -
  have mem: "ArgSif ''./out.img'' \<in> set [ArgSif ''./out.img'']" by simp
  have bad: "sif example_env ''./out.img'' = Inl (ArgumentTypeError ''Expected sif extension'')"
    by (simp add: sif_def example_env_def sample_env_def path_of_string_def resolve_def suffix_of_def name_def
        parent_def Let_def)
  show ?thesis
    using sif_validation[where s = "''./out.img''" and argv = "[ArgSif ''./out.img'']"
        and e = example_env and cmd = "Some build_singularity_image"
        and err = "ArgumentTypeError ''Expected sif extension''"
        and d = "Path Root [''home'', ''user'', ''decaf-fermi.sif'']"]
      mem bad example_env_default_sif
    by blast
qed

section \<open>Running the Singularity image\<close>

lemma keys_setattr: "set (map fst (setattr ns k v)) = insert k (set (map fst ns))"
  by (induction ns k v rule: setattr.induct) auto

lemma parse_args_keeps_keys:
  "parse_args e c ns extras argv = Inr ns' \<Longrightarrow> set (map fst ns) \<subseteq> set (map fst ns')"
proof (induction argv arbitrary: ns extras)
  case Nil
  then show ?case by (auto split: if_splits)
next
  case (Cons a argv)
  show ?case
  proof (cases "convert e c a")
    case None
    then show ?thesis using Cons by simp
  next
    case (Some r)
    show ?thesis
    proof (cases r)
      case (Inl err)
      then show ?thesis using Cons.prems Some by simp
    next
      case (Inr kv)
      obtain k v where kv: "kv = (k, v)" by (cases kv)
      have "parse_args e c (setattr ns k v) extras argv = Inr ns'"
        using Cons.prems Some Inr kv by simp
      then have "set (map fst (setattr ns k v)) \<subseteq> set (map fst ns')" by (rule Cons.IH)
      then show ?thesis unfolding keys_setattr by blast
    qed
  qed
qed

lemma call_main_unexpected:
  assumes "k \<in> set (map fst args)" and "k \<notin> set (parameters c)"
  shows "\<exists>msg. call_main e c args = ([], Inl (TypeError msg))"
proof -
  have "filter (\<lambda>k. k \<notin> set (parameters c)) (map fst args) \<noteq> []"
    using assms by (auto simp: filter_empty_conv)
  then show ?thesis
    by (cases "filter (\<lambda>k. k \<notin> set (parameters c)) (map fst args)")
       (auto simp: call_main_def raise_def)
qed

text \<open>
  C1: what the code does on \<open>run-singularity-image\<close>. The subparser stores \<open>sif\<close> in the
  namespace, but \<open>main_run_singularity_image\<close> has the single parameter \<open>interactive\<close>, so
  the call \<open>main(**args)\<close> raises \<open>TypeError\<close>: for every environment and every option
  list the command fails and no child process is run, Singularity included. With no option
  at all in \<open>/home/user\<close> the exception is the unexpected keyword \<open>sif\<close>.
\<close>

theorem run_singularity_image_fails:
  "fst (cli e (Some run_singularity_image) argv) = []
   \<and> isl (snd (cli e (Some run_singularity_image) argv))
   \<and> cli example_env (Some run_singularity_image) []
       = ([], Inl (TypeError (''main_run_singularity_image() got an unexpected keyword argument ''
                              @ [CHR 0x27] @ ''sif'' @ [CHR 0x27])))"
proof -
  have gen: "fst (cli e (Some run_singularity_image) argv) = []
      \<and> isl (snd (cli e (Some run_singularity_image) argv))"
  proof (cases "sif e ''./decaf-fermi.sif''")
    case (Inl err)
    then show ?thesis using cli_no_default[OF Inl] by simp
  next
    case (Inr d)
    show ?thesis
    proof (cases "parse_args e run_singularity_image (defaults e d run_singularity_image) False argv")
      case (Inl err)
      then show ?thesis using cli_unparsed[OF Inr Inl] by simp
    next
      case ns: (Inr args)
      have "''sif'' \<in> set (map fst (defaults e d run_singularity_image))"
        by (simp add: defaults_def)
      then have "''sif'' \<in> set (map fst args)"
        using parse_args_keeps_keys[OF ns] by blast
      moreover have "''sif'' \<notin> set (parameters run_singularity_image)"
        by (simp add: parameters_def)
      ultimately obtain msg where
        "call_main e run_singularity_image args = ([], Inl (TypeError msg))"
        using call_main_unexpected by blast
      then show ?thesis using Inr ns by (simp add: cli_def)
    qed
  qed
  have "cli example_env (Some run_singularity_image) []
       = ([], Inl (TypeError (''main_run_singularity_image() got an unexpected keyword argument ''
                              @ [CHR 0x27] @ ''sif'' @ [CHR 0x27])))"
    by (simp add: cli_def example_env_default_sif defaults_def call_main_def parameters_def
        main_name_def raise_def)
  then show ?thesis using gen by simp
qed

section \<open>Building the Docker image\<close>

lemma and_then_skip: "and_then skip f = f ()"
  by (simp add: and_then_def skip_def)

lemma and_then_raise: "and_then (raise err) f = ([], Inl err)"
  by (simp add: and_then_def raise_def)

lemma and_then_run:
  "and_then (run e c check) f =
     (case proc e c of
        NotStarted \<Rightarrow> ([c], Inl OSError)
      | Exited rc \<Rightarrow>
          if check \<and> rc \<noteq> 0 then ([c], Inl (CalledProcessError rc (run_args c)))
          else (c # fst (f ()), snd (f ())))"
  by (cases "proc e c") (simp_all add: and_then_def run_def)

lemma run_checked:
  "run e c True =
     ([c], case proc e c of
             NotStarted \<Rightarrow> Inl OSError
           | Exited rc \<Rightarrow> if rc \<noteq> 0 then Inl (CalledProcessError rc (run_args c)) else Inr ())"
  by (cases "proc e c") (simp_all add: run_def)

lemma run_fs_exists: "run (e\<lparr>fs_exists := f\<rparr>) c check = run e c check"
  by (simp add: run_def)

lemma path_cwd_fs_exists: "path_cwd (e\<lparr>fs_exists := f\<rparr>) = path_cwd e"
  by (simp add: path_cwd_def)

lemma build_with_tree:
  assumes "fs_exists e root"
  shows "main_build_docker_image e root repo branch tg od pd =
    (case relative_to root (path_cwd e) of
       Inl err \<Rightarrow> ([], Inl err)
     | Inr rel \<Rightarrow>
         (case proc e (docker_build tg (target_of od) (dockerfile rel od pd)) of
            NotStarted \<Rightarrow> ([docker_build tg (target_of od) (dockerfile rel od pd)], Inl OSError)
          | Exited rc \<Rightarrow>
              if rc \<noteq> 0
              then ([docker_build tg (target_of od) (dockerfile rel od pd)],
                    Inl (CalledProcessError rc
                           (run_args (docker_build tg (target_of od) (dockerfile rel od pd)))))
              else if CHR ''/'' \<notin> set tg
              then ([docker_build tg (target_of od) (dockerfile rel od pd)], Inr ())
              else ([docker_build tg (target_of od) (dockerfile rel od pd), docker_push tg],
                    case proc e (docker_push tg) of
                      NotStarted \<Rightarrow> Inl OSError
                    | Exited rc' \<Rightarrow>
                        if rc' \<noteq> 0
                        then Inl (CalledProcessError rc' (run_args (docker_push tg)))
                        else Inr ())))"
proof (cases "relative_to root (path_cwd e)")
  case (Inl err)
  then show ?thesis using assms
    by (simp add: main_build_docker_image_def and_then_skip raise_def)
next
  case (Inr rel)
  show ?thesis
  proof (cases "proc e (docker_build tg (target_of od) (dockerfile rel od pd))")
    case NotStarted
    then show ?thesis using assms Inr
      by (simp add: main_build_docker_image_def and_then_skip and_then_run Let_def)
  next
    case (Exited rc)
    then show ?thesis using assms Inr
      by (cases "proc e (docker_push tg)")
         (simp_all add: main_build_docker_image_def and_then_def run_def skip_def Let_def)
  qed
qed

lemma build_without_tree:
  assumes "\<not> fs_exists e root"
  shows "main_build_docker_image e root repo branch tg od pd =
    (case proc e (git_clone repo root) of
       NotStarted \<Rightarrow> ([git_clone repo root], Inl OSError)
     | Exited rc \<Rightarrow>
         if rc \<noteq> 0
         then ([git_clone repo root], Inl (CalledProcessError rc (run_args (git_clone repo root))))
         else (case proc e (git_checkout branch root) of
                 NotStarted \<Rightarrow> ([git_clone repo root, git_checkout branch root], Inl OSError)
               | Exited rc' \<Rightarrow>
                   ([git_clone repo root, git_checkout branch root]
                      @ fst (main_build_docker_image (e\<lparr>fs_exists := \<lambda>p. True\<rparr>) root repo branch
                               tg od pd),
                    snd (main_build_docker_image (e\<lparr>fs_exists := \<lambda>p. True\<rparr>) root repo branch
                           tg od pd))))"
proof -
  let ?rest = "\<lambda>e. (\<lambda>_::unit. case relative_to root (path_cwd e) of
               Inl err \<Rightarrow> raise err
             | Inr rel \<Rightarrow>
                 (let dockerfile =
                        render dockerfile_template
                          [(''decaf_root'', PyPath rel),
                           (''only_dependencies'', PyBool od),
                           (''pull_dependencies'', opt_str pd)];
                      target = (if od then ''dependencies'' else ''final'')
                  in and_then (run e (docker_build tg target dockerfile) True)
                       (\<lambda>_. if CHR ''/'' \<in> set tg
                             then run e (docker_push tg) True
                             else skip)))"
  have with_tree: "main_build_docker_image (e\<lparr>fs_exists := \<lambda>p. True\<rparr>) root repo branch tg od pd
      = ?rest e ()"
    unfolding main_build_docker_image_def
    by (simp add: and_then_skip run_fs_exists path_cwd_fs_exists Let_def cong: sum.case_cong)
  have without: "main_build_docker_image e root repo branch tg od pd
      = and_then (and_then (run e (git_clone repo root) True)
                    (\<lambda>_. run e (git_checkout branch root) False)) (?rest e)"
    unfolding main_build_docker_image_def using assms by simp
  show ?thesis
    unfolding without with_tree
    by (cases "proc e (git_clone repo root)"; cases "proc e (git_checkout branch root)")
       (simp_all add: and_then_def run_def)
qed


lemma git_not_docker [simp]:
  "\<not> is_docker_build (git_clone repo root)" "\<not> is_docker_build (git_checkout branch root)"
  "\<not> is_docker_build (docker_push tg)" "is_docker_build (docker_build tg target df)"
  by (simp_all add: is_docker_build_def git_clone_def git_checkout_def docker_push_def
      docker_build_def)

lemma children_distinct [simp]:
  "git_clone repo root \<noteq> git_checkout branch root'"
  "git_clone repo root \<noteq> docker_build tg target df"
  "git_clone repo root \<noteq> docker_push tg"
  "git_checkout branch root \<noteq> docker_build tg target df"
  "git_checkout branch root \<noteq> docker_push tg"
  "docker_build tg target df \<noteq> docker_push tg'"
  "docker_build tg target df \<noteq> git_checkout branch root"
  "docker_push tg \<noteq> git_checkout branch root"
  by (simp_all add: git_clone_def git_checkout_def docker_push_def docker_build_def)

lemma abort_with_tree:
  assumes "fs_exists e root"
    and "child \<in> set (fst (main_build_docker_image e root repo branch tg od pd))"
    and "proc e child = Exited rc" and "rc \<noteq> 0"
  shows "snd (main_build_docker_image e root repo branch tg od pd)
           = Inl (CalledProcessError rc (run_args child))
         \<and> last (fst (main_build_docker_image e root repo branch tg od pd)) = child"
proof (cases "relative_to root (path_cwd e)")
  case (Inl err)
  then show ?thesis using assms(2) by (simp add: build_with_tree[OF assms(1)])
next
  case (Inr rel)
  let ?b = "docker_build tg (target_of od) (dockerfile rel od pd)"
  show ?thesis
  proof (cases "proc e ?b")
    case NotStarted
    then show ?thesis using assms(2,3) Inr
      by (auto simp: build_with_tree[OF assms(1)])
  next
    case (Exited rb)
    show ?thesis
    proof (cases "rb \<noteq> 0 \<or> CHR ''/'' \<notin> set tg")
      case True
      then show ?thesis using assms(2,3,4) Inr Exited
        by (auto simp: build_with_tree[OF assms(1)])
    next
      case False
      then have r: "main_build_docker_image e root repo branch tg od pd =
          ([?b, docker_push tg],
           case proc e (docker_push tg) of
             NotStarted \<Rightarrow> Inl OSError
           | Exited rc' \<Rightarrow>
               if rc' \<noteq> 0 then Inl (CalledProcessError rc' (run_args (docker_push tg)))
               else Inr ())"
        using Inr Exited by (simp add: build_with_tree[OF assms(1)])
      have "child = ?b \<or> child = docker_push tg" using assms(2) unfolding r by simp
      moreover have "child \<noteq> ?b" using assms(3,4) Exited False by auto
      ultimately have c: "child = docker_push tg" by simp
      show ?thesis unfolding r using assms(3,4) unfolding c by simp
    qed
  qed
qed

text \<open>
  C3: the child processes of \<open>build-docker-image\<close> are the clone, the checkout, the build
  and the push. Whenever one of them other than the checkout exits with a non-zero status,
  it is the last child run and the command fails with that child's
  \<open>CalledProcessError\<close>. The checkout is the exception: after a successful clone, whatever
  status the checkout exits with, the command goes on exactly as it does when the source
  tree is already there.
\<close>

theorem build_steps_abort:
  "(child \<in> set (fst (main_build_docker_image e root repo branch tg od pd))
      \<longrightarrow> run_args child \<in>
            {[''git'', ''clone'', repo, path_str root],
             [''git'', ''checkout'', branch],
             [''docker'', ''build'', ''-t'', tg, ''-f'', ''-'', ''--target'', target_of od, ''.''],
             [''docker'', ''push'', tg]})
   \<and> (child \<in> set (fst (main_build_docker_image e root repo branch tg od pd))
        \<and> proc e child = Exited rc \<and> rc \<noteq> 0 \<and> child \<noteq> git_checkout branch root
      \<longrightarrow> snd (main_build_docker_image e root repo branch tg od pd)
            = Inl (CalledProcessError rc (run_args child))
          \<and> last (fst (main_build_docker_image e root repo branch tg od pd)) = child)
   \<and> (\<not> fs_exists e root \<and> proc e (git_clone repo root) = Exited 0
        \<and> proc e (git_checkout branch root) = Exited rc
      \<longrightarrow> main_build_docker_image e root repo branch tg od pd
            = ([git_clone repo root, git_checkout branch root]
                 @ fst (main_build_docker_image (e\<lparr>fs_exists := \<lambda>p. True\<rparr>) root repo branch tg
                          od pd),
               snd (main_build_docker_image (e\<lparr>fs_exists := \<lambda>p. True\<rparr>) root repo branch tg
                      od pd)))"
  (is "?children \<and> ?abort \<and> ?checkout")
proof (intro conjI)
  let ?e' = "e\<lparr>fs_exists := \<lambda>p. True\<rparr>"
  let ?r = "main_build_docker_image e root repo branch tg od pd"
  let ?r' = "main_build_docker_image ?e' root repo branch tg od pd"
  have tree': "fs_exists ?e' root" by simp
  have args': "run_args c \<in>
            {[''git'', ''clone'', repo, path_str root],
             [''git'', ''checkout'', branch],
             [''docker'', ''build'', ''-t'', tg, ''-f'', ''-'', ''--target'', target_of od, ''.''],
             [''docker'', ''push'', tg]}"
    if "fs_exists e0 root" "c \<in> set (fst (main_build_docker_image e0 root repo branch tg od pd))"
    for c e0
    using that(2) unfolding build_with_tree[OF that(1)]
    by (auto simp: docker_build_def docker_push_def
        split: sum.splits proc_result.splits if_splits)
  show ?children
  proof (cases "fs_exists e root")
    case True
    then show ?thesis using args' by blast
  next
    case False
    show ?thesis
    proof
      assume c: "child \<in> set (fst ?r)"
      then have "child = git_clone repo root \<or> child = git_checkout branch root
          \<or> child \<in> set (fst ?r')"
        unfolding build_without_tree[OF False]
        by (auto split: proc_result.splits if_splits)
      then consider "child = git_clone repo root" | "child = git_checkout branch root"
        | "child \<in> set (fst ?r')" by blast
      then show "run_args child \<in>
            {[''git'', ''clone'', repo, path_str root],
             [''git'', ''checkout'', branch],
             [''docker'', ''build'', ''-t'', tg, ''-f'', ''-'', ''--target'', target_of od, ''.''],
             [''docker'', ''push'', tg]}"
      proof cases
        case 1
        then show ?thesis by (simp add: git_clone_def)
      next
        case 2
        then show ?thesis by (simp add: git_checkout_def)
      next
        case 3
        then show ?thesis by (rule args'[OF tree'])
      qed
    qed
  qed
  show ?abort
  proof (cases "fs_exists e root")
    case True
    then show ?thesis using abort_with_tree by blast
  next
    case False
    show ?thesis
    proof
      assume a: "child \<in> set (fst ?r) \<and> proc e child = Exited rc \<and> rc \<noteq> 0
          \<and> child \<noteq> git_checkout branch root"
      show "snd ?r = Inl (CalledProcessError rc (run_args child)) \<and> last (fst ?r) = child"
      proof (cases "child = git_clone repo root")
        case True
        then show ?thesis using a unfolding build_without_tree[OF False] by simp
      next
        case notclone: False
        have started: "proc e (git_clone repo root) = Exited 0
            \<and> (\<exists>rc'. proc e (git_checkout branch root) = Exited rc')
            \<and> child \<in> set (fst ?r')"
          using a notclone unfolding build_without_tree[OF False]
          by (auto split: proc_result.splits if_splits)
        then obtain rc' where rc': "proc e (git_checkout branch root) = Exited rc'" by blast
        have r: "?r = ([git_clone repo root, git_checkout branch root] @ fst ?r', snd ?r')"
          using started rc' unfolding build_without_tree[OF False] by simp
        have "proc ?e' child = Exited rc" using a by simp
        then have "snd ?r' = Inl (CalledProcessError rc (run_args child))
            \<and> last (fst ?r') = child"
          using abort_with_tree[OF tree'] started a by blast
        moreover have "fst ?r' \<noteq> []" using started by auto
        ultimately show ?thesis unfolding r by simp
      qed
    qed
  qed
  show ?checkout
    by (auto simp: build_without_tree)
qed


lemma sample_env_simps [simp]:
  "getcwd (sample_env present status) = [''home'', ''user'']"
  "fs_exists (sample_env present status) p \<longleftrightarrow>
     p = Path Root [] \<or> p = Path Root [''home''] \<or> p = Path Root [''home'', ''user'']
     \<or> (present \<and> p = Path Root [''home'', ''user'', ''decaf''])"
  "proc (sample_env present status) (git_clone repo root) = Exited (status ''clone'')"
  "proc (sample_env present status) (git_checkout branch root) = Exited (status ''checkout'')"
  "proc (sample_env present status) (docker_build tg target df) = Exited (status ''build'')"
  "proc (sample_env present status) (docker_push tg) = Exited (status ''push'')"
  by (simp_all add: sample_env_def git_clone_def git_checkout_def docker_build_def
      docker_push_def)

lemma sample_tree_relative:
  "relative_to (Path Root [''home'', ''user'', ''decaf'']) (path_cwd (sample_env present status))
     = Inr (Path NoRoot [''decaf''])"
  by (simp add: relative_to_def path_cwd_def)

theorem build_steps_abort_witness:
  "snd (main_build_docker_image (sample_env True build_fails)
          (Path Root [''home'', ''user'', ''decaf'']) ''repo'' ''decaf-henson'' ''bar:latest''
          False None)
     = Inl (CalledProcessError 1
              [''docker'', ''build'', ''-t'', ''bar:latest'', ''-f'', ''-'', ''--target'',
               ''final'', ''.''])
   \<and> fst (main_build_docker_image (sample_env False checkout_fails)
            (Path Root [''home'', ''user'', ''decaf'']) ''repo'' ''decaf-henson'' ''bar:latest''
            False None)
     = [git_clone ''repo'' (Path Root [''home'', ''user'', ''decaf'']),
        git_checkout ''decaf-henson'' (Path Root [''home'', ''user'', ''decaf'']),
        docker_build ''bar:latest'' ''final'' (dockerfile (Path NoRoot [''decaf'']) False None)]
   \<and> snd (main_build_docker_image (sample_env False checkout_fails)
            (Path Root [''home'', ''user'', ''decaf'']) ''repo'' ''decaf-henson'' ''bar:latest''
            False None)
     = Inr ()"
proof -
  let ?root = "Path Root [''home'', ''user'', ''decaf'']"
  let ?b = "docker_build ''bar:latest'' ''final'' (dockerfile (Path NoRoot [''decaf'']) False None)"
  let ?e1 = "sample_env True build_fails"
  let ?e2 = "sample_env False checkout_fails"
  have tree: "fs_exists ?e1 ?root" by simp
  have r1: "main_build_docker_image ?e1 ?root ''repo'' ''decaf-henson'' ''bar:latest'' False None
      = ([?b], Inl (CalledProcessError 1 (run_args ?b)))"
    by (simp add: build_with_tree[OF tree] sample_tree_relative build_fails_def)
  have h1: "?b \<in> set (fst (main_build_docker_image ?e1 ?root ''repo'' ''decaf-henson''
      ''bar:latest'' False None))"
    unfolding r1 by simp
  have h2: "proc ?e1 ?b = Exited 1" by (simp add: build_fails_def)
  have h3: "?b \<noteq> git_checkout ''decaf-henson'' ?root" by simp
  have first: "snd (main_build_docker_image ?e1 ?root ''repo'' ''decaf-henson'' ''bar:latest''
      False None) = Inl (CalledProcessError 1 (run_args ?b))"
    using build_steps_abort[where child = ?b and e = ?e1 and root = ?root and repo = "''repo''"
        and branch = "''decaf-henson''" and tg = "''bar:latest''" and od = False and pd = None
        and rc = 1] h1 h2 h3
    by simp
  have g1: "\<not> fs_exists ?e2 ?root" by simp
  have g2: "proc ?e2 (git_clone ''repo'' ?root) = Exited 0" by (simp add: checkout_fails_def)
  have g3: "proc ?e2 (git_checkout ''decaf-henson'' ?root) = Exited 1"
    by (simp add: checkout_fails_def)
  have tree': "fs_exists (?e2\<lparr>fs_exists := \<lambda>p. True\<rparr>) ?root" by simp
  have r2: "main_build_docker_image (?e2\<lparr>fs_exists := \<lambda>p. True\<rparr>) ?root ''repo''
      ''decaf-henson'' ''bar:latest'' False None = ([?b], Inr ())"
    by (simp add: build_with_tree[OF tree'] path_cwd_fs_exists sample_tree_relative
        checkout_fails_def)
  have second: "main_build_docker_image ?e2 ?root ''repo'' ''decaf-henson'' ''bar:latest''
      False None
      = ([git_clone ''repo'' ?root, git_checkout ''decaf-henson'' ?root] @ [?b], Inr ())"
    using build_steps_abort[where e = ?e2 and root = ?root and repo = "''repo''"
        and branch = "''decaf-henson''" and tg = "''bar:latest''" and od = False and pd = None
        and rc = 1] g1 g2 g3
    unfolding r2 by simp
  show ?thesis using first second by (simp add: docker_build_def)
qed


text \<open>The trace of \<open>build-docker-image\<close>, by how far the command gets.\<close>

lemma trace_with_tree:
  assumes "fs_exists e root" and "relative_to root (path_cwd e) = Inr rel"
  shows "fst (main_build_docker_image e root repo branch tg od pd) =
     docker_build tg (target_of od) (dockerfile rel od pd)
       # (if proc e (docker_build tg (target_of od) (dockerfile rel od pd)) = Exited 0
             \<and> CHR ''/'' \<in> set tg
          then [docker_push tg] else [])"
  by (cases "proc e (docker_build tg (target_of od) (dockerfile rel od pd))")
     (simp_all add: build_with_tree[OF assms(1)] assms(2))

lemma outside_with_tree:
  assumes "fs_exists e root" and "relative_to root (path_cwd e) = Inl err"
  shows "main_build_docker_image e root repo branch tg od pd = ([], Inl err)"
  by (simp add: build_with_tree[OF assms(1)] assms(2))

lemma build_reached:
  assumes "reaches_render e root repo branch"
  shows "main_build_docker_image e root repo branch tg od pd =
     (fetched e root repo branch
        @ fst (main_build_docker_image (e\<lparr>fs_exists := \<lambda>p. True\<rparr>) root repo branch tg od pd),
      snd (main_build_docker_image (e\<lparr>fs_exists := \<lambda>p. True\<rparr>) root repo branch tg od pd))"
proof (cases "fs_exists e root")
  case True
  have "main_build_docker_image (e\<lparr>fs_exists := \<lambda>p. True\<rparr>) root repo branch tg od pd
      = main_build_docker_image e root repo branch tg od pd"
    using True
    by (simp add: main_build_docker_image_def run_fs_exists path_cwd_fs_exists Let_def
        cong: sum.case_cong)
  then show ?thesis using True by (simp add: fetched_def)
next
  case False
  then obtain rc where "proc e (git_clone repo root) = Exited 0"
    "proc e (git_checkout branch root) = Exited rc"
    using assms by (cases "proc e (git_checkout branch root)") (auto simp: reaches_render_def)
  then show ?thesis using False by (simp add: build_without_tree fetched_def)
qed

lemma build_not_reached:
  assumes "\<not> reaches_render e root repo branch"
  shows "set (fst (main_build_docker_image e root repo branch tg od pd))
           \<subseteq> {git_clone repo root, git_checkout branch root}
         \<and> isl (snd (main_build_docker_image e root repo branch tg od pd))"
proof -
  have nt: "\<not> fs_exists e root" using assms by (simp add: reaches_render_def)
  show ?thesis
  proof (cases "proc e (git_clone repo root)")
    case NotStarted
    then show ?thesis by (simp add: build_without_tree[OF nt])
  next
    case (Exited rc)
    show ?thesis
    proof (cases "rc = 0")
      case True
      then have "proc e (git_checkout branch root) = NotStarted"
        using assms Exited by (simp add: reaches_render_def)
      then show ?thesis using Exited True by (simp add: build_without_tree[OF nt])
    next
      case False
      then show ?thesis using Exited by (simp add: build_without_tree[OF nt])
    qed
  qed
qed

lemma build_trace:
  assumes "reaches_render e root repo branch" and "relative_to root (path_cwd e) = Inr rel"
  shows "fst (main_build_docker_image e root repo branch tg od pd) =
     fetched e root repo branch
       @ docker_build tg (target_of od) (dockerfile rel od pd)
       # (if proc e (docker_build tg (target_of od) (dockerfile rel od pd)) = Exited 0
             \<and> CHR ''/'' \<in> set tg
          then [docker_push tg] else [])"
proof -
  have "fs_exists (e\<lparr>fs_exists := \<lambda>p. True\<rparr>) root" by simp
  moreover have "relative_to root (path_cwd (e\<lparr>fs_exists := \<lambda>p. True\<rparr>)) = Inr rel"
    using assms(2) by (simp add: path_cwd_fs_exists)
  ultimately show ?thesis
    unfolding build_reached[OF assms(1)] by (simp add: trace_with_tree)
qed

lemma build_outside:
  assumes "reaches_render e root repo branch" and "relative_to root (path_cwd e) = Inl err"
  shows "main_build_docker_image e root repo branch tg od pd
           = (fetched e root repo branch, Inl err)"
proof -
  have "fs_exists (e\<lparr>fs_exists := \<lambda>p. True\<rparr>) root" by simp
  moreover have "relative_to root (path_cwd (e\<lparr>fs_exists := \<lambda>p. True\<rparr>)) = Inl err"
    using assms(2) by (simp add: path_cwd_fs_exists)
  ultimately show ?thesis
    unfolding build_reached[OF assms(1)] by (simp add: outside_with_tree)
qed

lemmas children_distinct_sym [simp] = children_distinct[THEN not_sym]

lemma fetched_not_docker:
  "child \<in> set (fetched e root repo branch) \<Longrightarrow> \<not> is_docker_build child"
  "docker_push tg \<notin> set (fetched e root repo branch)"
  by (auto simp: fetched_def split: if_splits)

lemma docker_build_child:
  assumes "child \<in> set (fst (main_build_docker_image e root repo branch tg od pd))"
    and "is_docker_build child"
  shows "reaches_render e root repo branch
         \<and> (\<exists>rel. relative_to root (path_cwd e) = Inr rel
                 \<and> child = docker_build tg (target_of od) (dockerfile rel od pd))"
proof (cases "reaches_render e root repo branch")
  case False
  then show ?thesis using build_not_reached[OF False, of tg od pd] assms by auto
next
  case True
  show ?thesis
  proof (cases "relative_to root (path_cwd e)")
    case (Inl err)
    then show ?thesis using assms fetched_not_docker(1) by (auto simp: build_outside[OF True Inl])
  next
    case (Inr rel)
    have "child \<in> set (fetched e root repo branch)
        \<or> child = docker_build tg (target_of od) (dockerfile rel od pd)
        \<or> child = docker_push tg"
      using assms(1) unfolding build_trace[OF True Inr] by (auto split: if_splits)
    then show ?thesis using assms(2) fetched_not_docker(1) True Inr by auto
  qed
qed

lemma push_child:
  assumes "docker_push tg \<in> set (fst (main_build_docker_image e root repo branch tg od pd))"
  shows "reaches_render e root repo branch
         \<and> (\<exists>rel. relative_to root (path_cwd e) = Inr rel
                 \<and> proc e (docker_build tg (target_of od) (dockerfile rel od pd)) = Exited 0
                 \<and> CHR ''/'' \<in> set tg)"
proof (cases "reaches_render e root repo branch")
  case False
  then show ?thesis using build_not_reached[OF False, of tg od pd] assms by auto
next
  case True
  show ?thesis
  proof (cases "relative_to root (path_cwd e)")
    case (Inl err)
    then show ?thesis using assms fetched_not_docker(2) by (auto simp: build_outside[OF True Inl])
  next
    case (Inr rel)
    show ?thesis
      using assms fetched_not_docker(2) True Inr unfolding build_trace[OF True Inr]
      by (auto split: if_splits)
  qed
qed


lemma sample_env_default_sif:
  "sif (sample_env present status) ''./decaf-fermi.sif''
     = Inr (Path Root [''home'', ''user'', ''decaf-fermi.sif''])"
  by (simp add: sif_def path_of_string_def resolve_def suffix_of_def name_def parent_def Let_def)

lemma cli_build_sample:
  "cli (sample_env present status) (Some build_docker_image)
       [ArgOnlyDependencies, ArgTag ''foo/bar:0.2.0-base'']
     = main_build_docker_image (sample_env present status)
         (Path Root [''home'', ''user'', ''decaf'']) ''git@bitbucket.org:tpeterka1/decaf.git''
         ''decaf-henson'' ''foo/bar:0.2.0-base'' True None"
  by (simp add: cli_def sample_env_default_sif defaults_def tag_def type_error_def call_main_def
      parameters_def apply_main_def path_join_def path_of_string_def path_cwd_def Let_def)


text \<open>
  C2, as the code has it: a child that is a \<open>docker build\<close> has the command line
  \<open>docker build -t TAG -f - --target T .\<close> with \<open>T\<close> the stage \<open>dependencies\<close> when
  only-dependencies is set and \<open>final\<close> otherwise; the push of the tag is run exactly when
  the tag contains \<open>/\<close> and that build exited with status 0, and then it is the child
  right after the build. A push is never run without a build, and the build is run
  whenever the command gets past the source tree with a path under the working directory.
\<close>

theorem build_target_and_push:
  "(child \<in> set (fst (main_build_docker_image e root repo branch tg od pd))
      \<and> is_docker_build child
    \<longrightarrow> run_args child
          = [''docker'', ''build'', ''-t'', tg, ''-f'', ''-'', ''--target'', target_of od, ''.'']
        \<and> (docker_push tg \<in> set (fst (main_build_docker_image e root repo branch tg od pd))
             \<longleftrightarrow> CHR ''/'' \<in> set tg \<and> proc e child = Exited 0)
        \<and> (docker_push tg \<in> set (fst (main_build_docker_image e root repo branch tg od pd))
             \<longrightarrow> fst (main_build_docker_image e root repo branch tg od pd)
                   = fetched e root repo branch @ [child, docker_push tg]))
   \<and> (docker_push tg \<in> set (fst (main_build_docker_image e root repo branch tg od pd))
        \<longrightarrow> (\<exists>child. child \<in> set (fst (main_build_docker_image e root repo branch tg od pd))
                    \<and> is_docker_build child))
   \<and> (reaches_render e root repo branch \<and> relative_to root (path_cwd e) = Inr rel
        \<longrightarrow> docker_build tg (target_of od) (dockerfile rel od pd)
              \<in> set (fst (main_build_docker_image e root repo branch tg od pd)))"
  (is "?build \<and> ?push \<and> ?reached")
proof (intro conjI)
  let ?r = "main_build_docker_image e root repo branch tg od pd"
  show ?build
  proof
    assume a: "child \<in> set (fst ?r) \<and> is_docker_build child"
    then obtain rel' where reach: "reaches_render e root repo branch"
      and rel': "relative_to root (path_cwd e) = Inr rel'"
      and child: "child = docker_build tg (target_of od) (dockerfile rel' od pd)"
      using docker_build_child by blast
    have args: "run_args child
          = [''docker'', ''build'', ''-t'', tg, ''-f'', ''-'', ''--target'', target_of od, ''.'']"
      unfolding child by (simp add: docker_build_def)
    have trace: "fst ?r = fetched e root repo branch
        @ child # (if proc e child = Exited 0 \<and> CHR ''/'' \<in> set tg then [docker_push tg] else [])"
      unfolding child by (rule build_trace[OF reach rel'])
    have push: "docker_push tg \<in> set (fst ?r) \<longleftrightarrow> CHR ''/'' \<in> set tg \<and> proc e child = Exited 0"
      unfolding trace using fetched_not_docker(2) a by (auto simp: is_docker_build_def docker_push_def)
    have after: "docker_push tg \<in> set (fst ?r)
        \<longrightarrow> fst ?r = fetched e root repo branch @ [child, docker_push tg]"
      using push trace by simp
    show "run_args child
          = [''docker'', ''build'', ''-t'', tg, ''-f'', ''-'', ''--target'', target_of od, ''.'']
        \<and> (docker_push tg \<in> set (fst ?r) \<longleftrightarrow> CHR ''/'' \<in> set tg \<and> proc e child = Exited 0)
        \<and> (docker_push tg \<in> set (fst ?r)
             \<longrightarrow> fst ?r = fetched e root repo branch @ [child, docker_push tg])"
      using args push after by blast
  qed
  show ?push
  proof
    assume "docker_push tg \<in> set (fst ?r)"
    then obtain rel' where reach: "reaches_render e root repo branch"
      and rel': "relative_to root (path_cwd e) = Inr rel'"
      using push_child by blast
    have "docker_build tg (target_of od) (dockerfile rel' od pd) \<in> set (fst ?r)"
      unfolding build_trace[OF reach rel'] by simp
    then show "\<exists>child. child \<in> set (fst ?r) \<and> is_docker_build child"
      using git_not_docker(4) by blast
  qed
  show ?reached
    by (auto simp: build_trace)
qed


theorem build_target_and_push_witness:
  "docker_build ''foo/bar:0.2.0-base'' ''dependencies'' (dockerfile (Path NoRoot [''decaf'']) True None)
     \<in> set (fst (main_build_docker_image (sample_env True all_succeed)
                   (Path Root [''home'', ''user'', ''decaf''])
                   ''git@bitbucket.org:tpeterka1/decaf.git'' ''decaf-henson''
                   ''foo/bar:0.2.0-base'' True None))
   \<and> docker_push ''foo/bar:0.2.0-base''
     \<in> set (fst (main_build_docker_image (sample_env True all_succeed)
                   (Path Root [''home'', ''user'', ''decaf''])
                   ''git@bitbucket.org:tpeterka1/decaf.git'' ''decaf-henson''
                   ''foo/bar:0.2.0-base'' True None))"
proof -
  let ?e = "sample_env True all_succeed"
  let ?root = "Path Root [''home'', ''user'', ''decaf'']"
  let ?b = "docker_build ''foo/bar:0.2.0-base'' ''dependencies''
              (dockerfile (Path NoRoot [''decaf'']) True None)"
  let ?r = "main_build_docker_image ?e ?root ''git@bitbucket.org:tpeterka1/decaf.git''
              ''decaf-henson'' ''foo/bar:0.2.0-base'' True None"
  have reach: "reaches_render ?e ?root ''git@bitbucket.org:tpeterka1/decaf.git'' ''decaf-henson''"
    by (simp add: reaches_render_def)
  have built: "?b \<in> set (fst ?r)"
    using build_target_and_push[where e = ?e and root = ?root and rel = "Path NoRoot [''decaf'']"
        and repo = "''git@bitbucket.org:tpeterka1/decaf.git''" and branch = "''decaf-henson''"
        and tg = "''foo/bar:0.2.0-base''" and od = True and pd = None]
      reach sample_tree_relative[of True all_succeed]
    by simp
  have "docker_push ''foo/bar:0.2.0-base'' \<in> set (fst ?r)"
    using build_target_and_push[where e = ?e and root = ?root and child = ?b
        and repo = "''git@bitbucket.org:tpeterka1/decaf.git''" and branch = "''decaf-henson''"
        and tg = "''foo/bar:0.2.0-base''" and od = True and pd = None]
      built
    by (simp add: all_succeed_def)
  then show ?thesis using built by simp
qed

text \<open>
  C2 as stated fails: with \<open>--only-dependencies --tag foo/bar:0.2.0-base\<close> and a build that
  exits with status 1, the tag contains \<open>/\<close> and no push is run.
\<close>

theorem push_needs_successful_build:
  "CHR ''/'' \<in> set ''foo/bar:0.2.0-base''
   \<and> fst (cli (sample_env True build_fails) (Some build_docker_image)
            [ArgOnlyDependencies, ArgTag ''foo/bar:0.2.0-base''])
     = [docker_build ''foo/bar:0.2.0-base'' ''dependencies''
          (dockerfile (Path NoRoot [''decaf'']) True None)]
   \<and> docker_push ''foo/bar:0.2.0-base''
     \<notin> set (fst (cli (sample_env True build_fails) (Some build_docker_image)
                   [ArgOnlyDependencies, ArgTag ''foo/bar:0.2.0-base'']))"
proof -
  have tree: "fs_exists (sample_env True build_fails) (Path Root [''home'', ''user'', ''decaf''])"
    by simp
  have "fst (cli (sample_env True build_fails) (Some build_docker_image)
            [ArgOnlyDependencies, ArgTag ''foo/bar:0.2.0-base''])
     = [docker_build ''foo/bar:0.2.0-base'' ''dependencies''
          (dockerfile (Path NoRoot [''decaf'']) True None)]"
    unfolding cli_build_sample
    by (simp add: trace_with_tree[OF tree sample_tree_relative] build_fails_def)
  then show ?thesis by simp
qed







section \<open>The rendered Dockerfile\<close>

text \<open>
  C4: the Dockerfile handed to \<open>docker build\<close> is a function of the relative source-tree
  path, the only-dependencies flag and the pull-dependencies tag alone. Two runs in any two
  environments (other working directories, other file systems, other child-process
  results, other repositories, branches and tags) that agree on these three parameters
  give the build the same text, the rendering of the template at the parameters.
\<close>

theorem dockerfile_determined_by_parameters:
  assumes "b1 \<in> set (fst (main_build_docker_image e1 root1 repo1 branch1 tg1 od pd))"
    and "is_docker_build b1"
    and "b2 \<in> set (fst (main_build_docker_image e2 root2 repo2 branch2 tg2 od pd))"
    and "is_docker_build b2"
    and "relative_to root1 (path_cwd e1) = Inr rel"
    and "relative_to root2 (path_cwd e2) = Inr rel"
  shows "run_input b1 = Some (dockerfile rel od pd) \<and> run_input b2 = run_input b1"
proof -
  have "b1 = docker_build tg1 (target_of od) (dockerfile rel od pd)"
    using docker_build_child[OF assms(1,2)] assms(5) by auto
  moreover have "b2 = docker_build tg2 (target_of od) (dockerfile rel od pd)"
    using docker_build_child[OF assms(3,4)] assms(6) by auto
  ultimately show ?thesis by (simp add: docker_build_def)
qed


theorem dockerfile_determined_by_parameters_witness:
  "docker_build ''bar:latest'' ''final''
       (dockerfile (Path NoRoot [''decaf'']) False (Some ''thobson2/decaf-fermi:0.2.0-base''))
     \<in> set (fst (main_build_docker_image (sample_env True all_succeed)
                   (Path Root [''home'', ''user'', ''decaf'']) ''repo'' ''decaf-henson''
                   ''bar:latest'' False (Some ''thobson2/decaf-fermi:0.2.0-base'')))
   \<and> docker_build ''foo/bar:1.0'' ''final''
       (dockerfile (Path NoRoot [''decaf'']) False (Some ''thobson2/decaf-fermi:0.2.0-base''))
     \<in> set (fst (main_build_docker_image (sample_env False checkout_fails)
                   (Path Root [''home'', ''user'', ''decaf'']) ''mirror'' ''main''
                   ''foo/bar:1.0'' False (Some ''thobson2/decaf-fermi:0.2.0-base'')))
   \<and> run_input (docker_build ''foo/bar:1.0'' ''final''
         (dockerfile (Path NoRoot [''decaf'']) False (Some ''thobson2/decaf-fermi:0.2.0-base'')))
     = run_input (docker_build ''bar:latest'' ''final''
         (dockerfile (Path NoRoot [''decaf'']) False (Some ''thobson2/decaf-fermi:0.2.0-base'')))"
proof -
  let ?root = "Path Root [''home'', ''user'', ''decaf'']"
  let ?pd = "Some ''thobson2/decaf-fermi:0.2.0-base''"
  let ?df = "dockerfile (Path NoRoot [''decaf'']) False ?pd"
  let ?e1 = "sample_env True all_succeed"
  let ?e2 = "sample_env False checkout_fails"
  have r1: "reaches_render ?e1 ?root ''repo'' ''decaf-henson''"
    by (simp add: reaches_render_def)
  have r2: "reaches_render ?e2 ?root ''mirror'' ''main''"
    by (simp add: reaches_render_def checkout_fails_def)
  have m1: "docker_build ''bar:latest'' ''final'' ?df
      \<in> set (fst (main_build_docker_image ?e1 ?root ''repo'' ''decaf-henson'' ''bar:latest''
                    False ?pd))"
    unfolding build_trace[OF r1 sample_tree_relative] by simp
  have m2: "docker_build ''foo/bar:1.0'' ''final'' ?df
      \<in> set (fst (main_build_docker_image ?e2 ?root ''mirror'' ''main'' ''foo/bar:1.0''
                    False ?pd))"
    unfolding build_trace[OF r2 sample_tree_relative] by simp
  show ?thesis
    using dockerfile_determined_by_parameters[OF m1 git_not_docker(4) m2 git_not_docker(4)
        sample_tree_relative sample_tree_relative] m1 m2
    by simp
qed


subsection \<open>The shape of the rendered text\<close>

lemma dockerfile_pull:
  assumes "t \<noteq> []"
  shows "dockerfile rel od (Some t) =
     pull_head @ t @ pull_tail @ final_from
       @ (if od then [] else copy_head @ path_str rel @ copy_tail) @ entrypoint"
  using assms
  by (simp add: render_def dockerfile_template_def lookup_def opt_str_def pull_head_def
      pull_tail_def final_from_def copy_head_def copy_tail_def entrypoint_def)

lemma dockerfile_full:
  "dockerfile rel od None =
     build_dependencies @ unlines [[], []] @ final_from
       @ (if od then [] else copy_head @ path_str rel @ copy_tail) @ entrypoint"
  by (simp add: render_def dockerfile_template_def lookup_def opt_str_def build_dependencies_def
      final_from_def copy_head_def copy_tail_def entrypoint_def)


subsection \<open>Adjacent slashes\<close>










lemma unlines_Cons: "unlines (l # ls) = l @ nl # unlines ls"
  by (simp add: unlines_def)

lemma unlines_Nil: "unlines [] = []"
  by (simp add: unlines_def)
















subsection \<open>Occurrences across a boundary\<close>








subsection \<open>Only the dependencies\<close>



lemma dockerfile_empty_pull: "dockerfile rel od (Some []) = dockerfile rel od None"
  by (simp add: render_def dockerfile_template_def lookup_def opt_str_def)





subsection \<open>The final stage\<close>


lemma final_stage_text:
  "\<exists>pre. dockerfile rel False pd
     = pre @ final_from @ copy_head @ path_str rel @ copy_tail @ entrypoint"
proof (cases pd)
  case None
  then show ?thesis by (simp add: dockerfile_full)
next
  case (Some t)
  show ?thesis
  proof (cases "t = []")
    case True
    then show ?thesis using Some by (simp add: dockerfile_empty_pull dockerfile_full)
  next
    case False
    have "dockerfile rel False (Some t)
        = (pull_head @ t @ pull_tail) @ final_from @ copy_head @ path_str rel @ copy_tail
            @ entrypoint"
      by (simp add: dockerfile_pull[OF False])
    then show ?thesis using Some by blast
  qed
qed

lemma final_stage_contents:
  "\<exists>pre post. dockerfile rel False pd = pre @ ''FROM dependencies AS final'' @ post
     \<and> sublist (''COPY '' @ path_str rel @ '' /opt/decaf'' @ [nl]) post
     \<and> sublist compile_instruction post"
proof -
  define shell where \<open>shell = unlines [[], [],
      ''SHELL ["/bin/bash", "--rcfile", "/etc/profile", "-l", "-c"]'', ''WORKDIR /opt'']\<close>
  obtain pre where r: "dockerfile rel False pd
      = pre @ final_from @ copy_head @ path_str rel @ copy_tail @ entrypoint"
    using final_stage_text by blast
  have ff: "final_from = [nl, nl, nl] @ ''FROM dependencies AS final'' @ [nl, nl]"
    by (simp add: final_from_def unlines_def)
  have ch: "copy_head = shell @ ''COPY ''"
    by (simp add: copy_head_def shell_def)
  have ct: "copy_tail = ('' /opt/decaf'' @ [nl]) @ unlines overlay_lines @ compile_instruction
      @ [nl]"
    by (simp add: copy_tail_def compile_instruction_def unlines_Cons unlines_append unlines_Nil)
  define post where "post = ([nl, nl] @ shell)
      @ (''COPY '' @ path_str rel @ '' /opt/decaf'' @ [nl])
      @ (unlines overlay_lines @ compile_instruction @ [nl] @ entrypoint)"
  have 1: "dockerfile rel False pd = (pre @ [nl, nl, nl]) @ ''FROM dependencies AS final'' @ post"
    unfolding r ff ch ct post_def by simp
  have 2: "sublist (''COPY '' @ path_str rel @ '' /opt/decaf'' @ [nl]) post"
    unfolding post_def by (rule sublist_appendI)
  have "post = (([nl, nl] @ shell) @ (''COPY '' @ path_str rel @ '' /opt/decaf'' @ [nl])
      @ unlines overlay_lines) @ compile_instruction @ ([nl] @ entrypoint)"
    unfolding post_def by simp
  then have 3: "sublist compile_instruction post"
    by (metis sublist_appendI)
  show ?thesis using 1 2 3 by blast
qed









end
